theory Spec2Isabelle
  imports Main "HOL-Library.Sublist" "HOL-Library.Word"
begin

section \<open>Values, exceptions and the events of the tag parser\<close>

text \<open>
  The program is \<^verbatim>\<open>get_blogspot_linked_images.py\<close>. Every exception it can raise is a value
  of \<open>error\<close>; a function that can raise returns \<open>error + 'a\<close>, with \<open>Inl\<close> for the
  exception. \<open>KeyError\<close> carries the missing key. \<open>FetchError\<close> stands for whatever
  \<^verbatim>\<open>urllib.request.urlopen\<close> and \<^verbatim>\<open>json.loads\<close> raise (transport and decoding failures),
  \<open>OSError\<close> for a failing \<^verbatim>\<open>open\<close>.
\<close>

datatype error = KeyError string | IndexError | AttributeError | FetchError | OSError

text \<open>
  \<^verbatim>\<open>html.parser.HTMLParser\<close> belongs to the standard library, not to the program. Its
  \<^verbatim>\<open>feed\<close> scans the markup once and calls the handlers of the subclass in document order;
  the model takes that sequence of calls as a list of events. An attribute is a pair of a
  name and a value, and the value is \<^verbatim>\<open>None\<close> for an attribute written without one
  (\<^verbatim>\<open><a href>\<close>), so values are \<open>string option\<close>. A tag written \<^verbatim>\<open><img/>\<close> is reported
  through \<^verbatim>\<open>handle_startendtag\<close>, which neither class overrides: the inherited method calls
  \<^verbatim>\<open>handle_starttag\<close> and then \<^verbatim>\<open>handle_endtag\<close>. Text, comments and declarations reach
  handlers that neither class overrides either; they are the event \<open>Data\<close>.
\<close>

type_synonym attrs = "(string \<times> string option) list"

datatype event =
    StartTag string attrs
  | EndTag string
  | StartEndTag string attrs
  | Data string

subsection \<open>Utilities\<close>

text \<open>
  \<^verbatim>\<open>str.endswith\<close> and \<^verbatim>\<open>str.startswith\<close> on one string argument.
\<close>

definition endswith :: "string \<Rightarrow> string \<Rightarrow> bool" where
  "endswith s ext = suffix ext s"

definition startswith :: "string \<Rightarrow> string \<Rightarrow> bool" where
  "startswith s p = prefix p s"

text \<open>The truth value Python gives a list in a condition: false exactly for the empty list.\<close>

definition truthy :: "'a list \<Rightarrow> bool" where
  "truthy xs = (xs \<noteq> [])"

definition extensions :: "string list" where
  "extensions = [''png'', ''gif'', ''jpg'', ''jpeg'']"

text \<open>
  \<^verbatim>\<open>is_image_filename\<close> returns the list of the four comparisons, not their disjunction.
  On \<^verbatim>\<open>None\<close> the call of \<^verbatim>\<open>endswith\<close> raises \<^verbatim>\<open>AttributeError\<close>.
\<close>

definition is_image_filename :: "string option \<Rightarrow> error + bool list" where
  "is_image_filename string =
     (case string of
        None \<Rightarrow> Inl AttributeError
      | Some s \<Rightarrow> Inr (map (endswith s) extensions))"

definition find_key :: "('k \<times> 'v) list \<Rightarrow> 'k \<Rightarrow> 'v list" where
  "find_key list_kvpairs search = [v. (k, v) \<leftarrow> list_kvpairs, k = search]"

subsection \<open>ImageSearcher: every image source of a page\<close>

record ImageSearcher =
  image_sources :: "string option list"

definition ImageSearcher_init :: "ImageSearcher" where
  "ImageSearcher_init = \<lparr>image_sources = []\<rparr>"

text \<open>\<^verbatim>\<open>src[0]\<close> raises \<^verbatim>\<open>IndexError\<close> when the tag has no \<^verbatim>\<open>src\<close> attribute.\<close>

definition ImageSearcher_handle_starttag ::
    "ImageSearcher \<Rightarrow> string \<Rightarrow> attrs \<Rightarrow> error + ImageSearcher" where
  "ImageSearcher_handle_starttag self tag as =
     (if tag = ''img'' then
        (case find_key as ''src'' of
           [] \<Rightarrow> Inl IndexError
         | s # _ \<Rightarrow> Inr (self\<lparr>image_sources := image_sources self @ [s]\<rparr>))
      else Inr self)"

fun ImageSearcher_event :: "ImageSearcher \<Rightarrow> event \<Rightarrow> error + ImageSearcher" where
  "ImageSearcher_event self (StartTag tag as) = ImageSearcher_handle_starttag self tag as"
| "ImageSearcher_event self (EndTag tag) = Inr self"
| "ImageSearcher_event self (StartEndTag tag as) = ImageSearcher_handle_starttag self tag as"
| "ImageSearcher_event self (Data d) = Inr self"

fun ImageSearcher_feed :: "ImageSearcher \<Rightarrow> event list \<Rightarrow> error + ImageSearcher" where
  "ImageSearcher_feed self [] = Inr self"
| "ImageSearcher_feed self (e # es) =
     (case ImageSearcher_event self e of
        Inl err \<Rightarrow> Inl err
      | Inr self' \<Rightarrow> ImageSearcher_feed self' es)"

text \<open>
  \<^verbatim>\<open>images_in_html\<close> decodes the bytes and feeds the text to the parser. Both steps are
  library code: \<open>decode\<close> is \<^verbatim>\<open>bytes.decode('utf8', 'ignore')\<close> and \<open>tokenize\<close> gives the
  events \<^verbatim>\<open>HTMLParser.feed\<close> reports for a text.
\<close>

type_synonym byte = "8 word"

definition images_in_html ::
    "(byte list \<Rightarrow> string) \<Rightarrow> (string \<Rightarrow> event list) \<Rightarrow> byte list \<Rightarrow> error + string option list" where
  "images_in_html decode tokenize html_bytes =
     (let encoded = decode html_bytes in
      case ImageSearcher_feed ImageSearcher_init (tokenize encoded) of
        Inl err \<Rightarrow> Inl err
      | Inr parser \<Rightarrow> Inr (image_sources parser))"

subsection \<open>ImageLinkSearcher: images that link to another image\<close>

text \<open>
  \<open>linkstack\<close> is a Python list used as a stack: \<^verbatim>\<open>append\<close> pushes at the end,
  \<^verbatim>\<open>linkstack[-1]\<close> reads the last element and \<^verbatim>\<open>pop()\<close> removes it, raising
  \<^verbatim>\<open>IndexError\<close> on the empty list.
\<close>

record ImageLinkSearcher =
  linkstack :: "string option list"
  images :: "string option list"

definition ImageLinkSearcher_init :: "ImageLinkSearcher" where
  "ImageLinkSearcher_init = \<lparr>linkstack = [], images = []\<rparr>"

definition push_anchor :: "ImageLinkSearcher \<Rightarrow> string \<Rightarrow> attrs \<Rightarrow> ImageLinkSearcher" where
  "push_anchor self tag as =
     (if tag = ''a'' then
        (let hrefs = find_key as ''href'' in
         if truthy hrefs then self\<lparr>linkstack := linkstack self @ [hd hrefs]\<rparr> else self)
      else self)"

definition record_image :: "ImageLinkSearcher \<Rightarrow> string \<Rightarrow> error + ImageLinkSearcher" where
  "record_image self tag =
     (if tag = ''img'' then
        (if truthy (linkstack self) then
           (let link = last (linkstack self) in
            case is_image_filename link of
              Inl err \<Rightarrow> Inl err
            | Inr flags \<Rightarrow>
                if truthy flags then Inr (self\<lparr>images := images self @ [link]\<rparr>) else Inr self)
         else Inr self)
      else Inr self)"

text \<open>The two \<^verbatim>\<open>if\<close> statements of \<^verbatim>\<open>handle_starttag\<close>, one after the other.\<close>

definition ImageLinkSearcher_handle_starttag ::
    "ImageLinkSearcher \<Rightarrow> string \<Rightarrow> attrs \<Rightarrow> error + ImageLinkSearcher" where
  "ImageLinkSearcher_handle_starttag self tag as = record_image (push_anchor self tag as) tag"

definition ImageLinkSearcher_handle_endtag ::
    "ImageLinkSearcher \<Rightarrow> string \<Rightarrow> error + ImageLinkSearcher" where
  "ImageLinkSearcher_handle_endtag self tag =
     (if tag = ''a'' then
        (if linkstack self = [] then Inl IndexError
         else Inr (self\<lparr>linkstack := butlast (linkstack self)\<rparr>))
      else Inr self)"

fun ImageLinkSearcher_event :: "ImageLinkSearcher \<Rightarrow> event \<Rightarrow> error + ImageLinkSearcher" where
  "ImageLinkSearcher_event self (StartTag tag as) = ImageLinkSearcher_handle_starttag self tag as"
| "ImageLinkSearcher_event self (EndTag tag) = ImageLinkSearcher_handle_endtag self tag"
| "ImageLinkSearcher_event self (StartEndTag tag as) =
     (case ImageLinkSearcher_handle_starttag self tag as of
        Inl err \<Rightarrow> Inl err
      | Inr self' \<Rightarrow> ImageLinkSearcher_handle_endtag self' tag)"
| "ImageLinkSearcher_event self (Data d) = Inr self"

fun ImageLinkSearcher_feed :: "ImageLinkSearcher \<Rightarrow> event list \<Rightarrow> error + ImageLinkSearcher" where
  "ImageLinkSearcher_feed self [] = Inr self"
| "ImageLinkSearcher_feed self (e # es) =
     (case ImageLinkSearcher_event self e of
        Inl err \<Rightarrow> Inl err
      | Inr self' \<Rightarrow> ImageLinkSearcher_feed self' es)"

definition find_link_images :: "(string \<Rightarrow> event list) \<Rightarrow> string \<Rightarrow> error + string option list" where
  "find_link_images tokenize html =
     (case ImageLinkSearcher_feed ImageLinkSearcher_init (tokenize html) of
        Inl err \<Rightarrow> Inl err
      | Inr parser \<Rightarrow> Inr (images parser))"

subsection \<open>Following a link that is a page\<close>

text \<open>
  What the program reads of the object \<^verbatim>\<open>urlopen\<close> returns: the \<^verbatim>\<open>Content-Type\<close> header
  (\<^verbatim>\<open>response.info()["Content-Type"]\<close> is \<^verbatim>\<open>None\<close> when the header is absent) and the body.
  The network is the parameter \<open>urlopen\<close>.
\<close>

record response =
  content_type :: "string option"
  body :: "byte list"

definition follow_image_embeds ::
    "(string \<Rightarrow> error + response) \<Rightarrow> (byte list \<Rightarrow> string) \<Rightarrow> (string \<Rightarrow> event list) \<Rightarrow>
     string \<Rightarrow> error + string option" where
  "follow_image_embeds urlopen decode tokenize url =
     (case urlopen url of
        Inl err \<Rightarrow> Inl err
      | Inr response \<Rightarrow>
          (case content_type response of
             None \<Rightarrow> Inl AttributeError
           | Some ct \<Rightarrow>
               if startswith ct ''image'' then Inr (Some url)
               else
                 (let html = body response in
                  case images_in_html decode tokenize html of
                    Inl err \<Rightarrow> Inl err
                  | Inr srcs \<Rightarrow> (case srcs of [] \<Rightarrow> Inl IndexError | s # _ \<Rightarrow> Inr s))))"

subsection \<open>Pagination\<close>

text \<open>
  A page of the posts listing, as far as \<^verbatim>\<open>get_all_posts\<close> reads it: the object has the
  key \<^verbatim>\<open>items\<close> (an array of posts) or lacks it, and has the key \<^verbatim>\<open>nextPageToken\<close>
  (a string) or lacks it. Subscripting with a missing key raises \<^verbatim>\<open>KeyError\<close>. Posts are
  opaque here. \<open>call_json\<close> is the parameter for the function of that name, whose body is
  library calls only.
\<close>

record 'post page =
  items :: "'post list option"
  nextPageToken :: "string option"

definition API_URL_BASE :: "string" where
  "API_URL_BASE = ''https://www.googleapis.com/blogger/v3''"

definition first_page_url :: "string \<Rightarrow> string \<Rightarrow> string" where
  "first_page_url blog_id api_key = API_URL_BASE @ ''/blogs/'' @ blog_id @ ''/posts?key='' @ api_key"

definition next_page_url :: "string \<Rightarrow> string \<Rightarrow> string \<Rightarrow> string" where
  "next_page_url blog_id api_key token =
     API_URL_BASE @ ''/blogs/'' @ blog_id @ ''/posts?key='' @ api_key @ ''&pageToken='' @ token"

fun is_KeyError :: "error \<Rightarrow> bool" where
  "is_KeyError (KeyError k) = True"
| "is_KeyError e = False"

text \<open>
  The \<^verbatim>\<open>while has_more\<close> loop. Its \<^verbatim>\<open>try\<close> block holds the three statements; the
  \<^verbatim>\<open>except KeyError\<close> clause catches a \<^verbatim>\<open>KeyError\<close> of any of them, sets \<^verbatim>\<open>has_more\<close>
  to false, and the function returns the items gathered so far. Any other exception
  leaves the function. A server that hands out tokens for ever keeps the loop running:
  the result \<open>None\<close> is the run that does not return.
\<close>

partial_function (option) get_all_posts_loop ::
    "(string \<Rightarrow> error + 'post page) \<Rightarrow> string \<Rightarrow> string \<Rightarrow> 'post page \<Rightarrow> 'post list \<Rightarrow>
     (error + 'post list) option" where
  "get_all_posts_loop call_json blog_id api_key data acc =
     (case nextPageToken data of
        None \<Rightarrow> Some (Inr acc)
      | Some token \<Rightarrow>
          (case call_json (next_page_url blog_id api_key token) of
             Inl err \<Rightarrow> if is_KeyError err then Some (Inr acc) else Some (Inl err)
           | Inr data' \<Rightarrow>
               (case items data' of
                  None \<Rightarrow> Some (Inr acc)
                | Some new_items \<Rightarrow> get_all_posts_loop call_json blog_id api_key data' (acc @ new_items))))"

definition get_all_posts ::
    "(string \<Rightarrow> error + 'post page) \<Rightarrow> string \<Rightarrow> string \<Rightarrow> (error + 'post list) option" where
  "get_all_posts call_json blog_id api_key =
     (case call_json (first_page_url blog_id api_key) of
        Inl err \<Rightarrow> Some (Inl err)
      | Inr data \<Rightarrow>
          (case items data of
             None \<Rightarrow> Some (Inl (KeyError ''items''))
           | Some first \<Rightarrow> get_all_posts_loop call_json blog_id api_key data first))"

subsection \<open>Downloading\<close>

text \<open>
  \<^verbatim>\<open>str.rfind\<close> for one character: the highest index where it stands, or \<open>-1\<close>. The slice
  \<^verbatim>\<open>s[k:]\<close> counts a negative \<open>k\<close> from the end.
\<close>

definition rfind :: "string \<Rightarrow> char \<Rightarrow> int" where
  "rfind s c =
     (case filter (\<lambda>i. s ! i = c) (rev [0..<length s]) of
        [] \<Rightarrow> - 1
      | i # _ \<Rightarrow> int i)"

definition slice_from :: "string \<Rightarrow> int \<Rightarrow> string" where
  "slice_from s k = (if k < 0 then drop (nat (int (length s) + k)) s else drop (nat k) s)"

text \<open>
  The file system is a map from paths to contents. \<open>path_join\<close> is \<^verbatim>\<open>os.path.join\<close>, and
  \<open>writable\<close> tells whether \<^verbatim>\<open>open(outpath, 'wb')\<close> succeeds; both belong to the platform.
  The function returns \<^verbatim>\<open>len(data)\<close>; the model returns the new file system beside it.
\<close>

type_synonym filesystem = "string \<rightharpoonup> byte list"

definition download_url_to_directory ::
    "(string \<Rightarrow> error + response) \<Rightarrow> (string \<Rightarrow> string \<Rightarrow> string) \<Rightarrow> (string \<Rightarrow> bool) \<Rightarrow>
     filesystem \<Rightarrow> string \<Rightarrow> string \<Rightarrow> error + (int \<times> filesystem)" where
  "download_url_to_directory urlopen path_join writable fs url directory =
     (case urlopen url of
        Inl err \<Rightarrow> Inl err
      | Inr response \<Rightarrow>
          (let data = body response;
               firstslash = rfind url (CHR ''/'');
               name = slice_from url (firstslash + 1);
               outpath = path_join directory name
           in if writable outpath then Inr (int (length data), fs(outpath \<mapsto> data))
              else Inl OSError))"

section \<open>Vocabulary of the properties\<close>

text \<open>
  A tag-start event for an image is a call of \<^verbatim>\<open>handle_starttag\<close> with the tag \<^verbatim>\<open>img\<close>,
  reached from \<^verbatim>\<open><img ...>\<close> or from \<^verbatim>\<open><img .../>\<close>.
\<close>

fun starts_img :: "event \<Rightarrow> bool" where
  "starts_img (StartTag tag as) = (tag = ''img'')"
| "starts_img (StartEndTag tag as) = (tag = ''img'')"
| "starts_img e = False"

fun tag_of :: "event \<Rightarrow> string option" where
  "tag_of (StartTag tag as) = Some tag"
| "tag_of (EndTag tag) = Some tag"
| "tag_of (StartEndTag tag as) = Some tag"
| "tag_of (Data d) = None"

definition no_anchor :: "event list \<Rightarrow> bool" where
  "no_anchor es = list_all (\<lambda>e. tag_of e \<noteq> Some ''a'') es"

definition no_anchor_no_img :: "event list \<Rightarrow> bool" where
  "no_anchor_no_img es = list_all (\<lambda>e. tag_of e \<noteq> Some ''a'' \<and> \<not> starts_img e) es"

text \<open>The value of the first \<^verbatim>\<open>href\<close> attribute of a tag, as the scanner reads it.\<close>

definition href_of :: "attrs \<Rightarrow> string option" where
  "href_of as = (case find_key as ''href'' of [] \<Rightarrow> None | h # _ \<Rightarrow> h)"

text \<open>
  The specification's notion of a link to an image file: the href ends in one of the four
  extensions. This is the disjunction that \<^verbatim>\<open>is_image_filename\<close> does not take.
\<close>

definition has_image_extension :: "string \<Rightarrow> bool" where
  "has_image_extension s = list_ex (\<lambda>ext. suffix ext s) extensions"

text \<open>
  An anchor element that wraps one image, with what stands before it in the document:
  \<open>leading\<close> is outside every anchor, then come the opening tag of the anchor, the
  content before the image, the image, the content after it and the closing tag.
\<close>

record linked_image =
  leading :: "event list"
  anchor_attrs :: attrs
  inner_before :: "event list"
  img_event :: event
  inner_after :: "event list"

definition linked_image_events :: "linked_image \<Rightarrow> event list" where
  "linked_image_events seg =
     leading seg @ [StartTag ''a'' (anchor_attrs seg)] @ inner_before seg @ [img_event seg] @
     inner_after seg @ [EndTag ''a'']"

definition linked_image_ok :: "linked_image \<Rightarrow> bool" where
  "linked_image_ok seg =
     (no_anchor (leading seg) \<and>
      (case href_of (anchor_attrs seg) of None \<Rightarrow> False | Some h \<Rightarrow> has_image_extension h) \<and>
      no_anchor_no_img (inner_before seg) \<and>
      starts_img (img_event seg) \<and>
      no_anchor_no_img (inner_after seg))"

text \<open>
  The specification's classification of a media type: its segment before the first
  \<^verbatim>\<open>/\<close>.
\<close>

definition top_level_token :: "string \<Rightarrow> string" where
  "top_level_token ct = takeWhile (\<lambda>c. c \<noteq> CHR ''/'') ct"

text \<open>
  A server that serves a given sequence of pages: the first address answers with the
  first page, the address built from the token of each page answers with the next one,
  every page has \<^verbatim>\<open>items\<close>, and only the last page has no token.
\<close>

definition page_items :: "'post page \<Rightarrow> 'post list" where
  "page_items p = (case items p of None \<Rightarrow> [] | Some xs \<Rightarrow> xs)"

fun chained ::
    "(string \<Rightarrow> error + 'post page) \<Rightarrow> string \<Rightarrow> string \<Rightarrow> 'post page \<Rightarrow> 'post page list \<Rightarrow> bool" where
  "chained call_json blog_id api_key p [] = (nextPageToken p = None)"
| "chained call_json blog_id api_key p (q # qs) =
     (case nextPageToken p of
        None \<Rightarrow> False
      | Some token \<Rightarrow>
          call_json (next_page_url blog_id api_key token) = Inr q \<and> items q \<noteq> None \<and>
          chained call_json blog_id api_key q qs)"

definition serves ::
    "(string \<Rightarrow> error + 'post page) \<Rightarrow> string \<Rightarrow> string \<Rightarrow> 'post page list \<Rightarrow> bool" where
  "serves call_json blog_id api_key pages =
     (case pages of
        [] \<Rightarrow> False
      | p # qs \<Rightarrow>
          call_json (first_page_url blog_id api_key) = Inr p \<and> items p \<noteq> None \<and>
          chained call_json blog_id api_key p qs)"

section \<open>The anchor-image scanner\<close>

lemmas scanner_defs =
  find_link_images_def ImageLinkSearcher_init_def ImageLinkSearcher_handle_starttag_def
  ImageLinkSearcher_handle_endtag_def push_anchor_def record_image_def find_key_def
  truthy_def is_image_filename_def extensions_def Let_def

text \<open>
  C1. The claim: an anchor whose href ends in none of png, gif, jpg, jpeg and that wraps an
  image contributes nothing to the result of \<^verbatim>\<open>find_link_images\<close>. The code does not do
  that. \<^verbatim>\<open>is_image_filename\<close> returns a list of four booleans, and a list of four elements
  is true in a condition whatever it holds, so \<^verbatim>\<open>handle_starttag\<close> records the href of
  every open anchor. For the markup \<^verbatim>\<open><a href="http://x/page.html"><img src="thumb.png"></a>\<close>
  the parser reports the three events below; the href has none of the four extensions
  and is returned all the same.
\<close>

theorem non_image_href_is_recorded:
  "\<not> has_image_extension ''http://x/page.html'' \<and>
   is_image_filename (Some ''http://x/page.html'') = Inr [False, False, False, False] \<and>
   find_link_images
     (\<lambda>html. [StartTag ''a'' [(''href'', Some ''http://x/page.html'')],
              StartTag ''img'' [(''src'', Some ''thumb.png'')],
              EndTag ''a''])
     ''<a href=\"http://x/page.html\"><img src=\"thumb.png\"></a>''
   = Inr [Some ''http://x/page.html'']"
  by (simp add: scanner_defs has_image_extension_def endswith_def suffix_def)

text \<open>
  C2. The claim: an anchor end tag that meets an empty anchor stack is a no-op, so markup
  with an unbalanced \<^verbatim>\<open></a>\<close> is scanned without an error. The code does not do that.
  \<^verbatim>\<open>handle_endtag\<close> pops without looking, and \<^verbatim>\<open>list.pop\<close> raises \<^verbatim>\<open>IndexError\<close> on the
  empty list; the exception leaves \<^verbatim>\<open>feed\<close> and \<^verbatim>\<open>find_link_images\<close>. The same happens on
  the balanced markup \<^verbatim>\<open><a name="top"></a>\<close>, since an anchor without href pushes nothing.
\<close>

theorem endtag_on_empty_stack_raises:
  "ImageLinkSearcher_handle_endtag ImageLinkSearcher_init ''a'' = Inl IndexError \<and>
   find_link_images (\<lambda>html. [EndTag ''a'']) ''</a>'' = Inl IndexError \<and>
   find_link_images (\<lambda>html. [StartTag ''a'' [(''name'', Some ''top'')], EndTag ''a''])
     ''<a name=\"top\"></a>'' = Inl IndexError"
  by (simp add: scanner_defs)

lemma feed_append:
  "ImageLinkSearcher_feed self (xs @ ys) =
     (case ImageLinkSearcher_feed self xs of
        Inl err \<Rightarrow> Inl err
      | Inr self' \<Rightarrow> ImageLinkSearcher_feed self' ys)"
  by (induction xs arbitrary: self) (simp_all split: sum.splits)

text \<open>Outside every anchor the stack is empty, and no tag but an anchor changes the state.\<close>

lemma event_outside_anchor:
  "tag_of e \<noteq> Some ''a'' \<Longrightarrow> linkstack self = [] \<Longrightarrow> ImageLinkSearcher_event self e = Inr self"
  by (cases e)
     (simp_all add: ImageLinkSearcher_handle_starttag_def ImageLinkSearcher_handle_endtag_def
        push_anchor_def record_image_def truthy_def)

lemma feed_outside_anchor:
  "no_anchor es \<Longrightarrow> linkstack self = [] \<Longrightarrow> ImageLinkSearcher_feed self es = Inr self"
  by (induction es) (simp_all add: no_anchor_def event_outside_anchor)

lemma event_inside_anchor:
  "tag_of e \<noteq> Some ''a'' \<Longrightarrow> \<not> starts_img e \<Longrightarrow> ImageLinkSearcher_event self e = Inr self"
  by (cases e)
     (simp_all add: ImageLinkSearcher_handle_starttag_def ImageLinkSearcher_handle_endtag_def
        push_anchor_def record_image_def)

lemma feed_inside_anchor:
  "no_anchor_no_img es \<Longrightarrow> ImageLinkSearcher_feed self es = Inr self"
  by (induction es) (simp_all add: no_anchor_no_img_def event_inside_anchor)

lemma open_anchor:
  "href_of as = Some h \<Longrightarrow>
   ImageLinkSearcher_event self (StartTag ''a'' as) =
     Inr (self\<lparr>linkstack := linkstack self @ [Some h]\<rparr>)"
  by (auto simp: href_of_def ImageLinkSearcher_handle_starttag_def push_anchor_def
      record_image_def truthy_def Let_def split: list.splits)

lemma image_in_anchor:
  "starts_img e \<Longrightarrow> linkstack self \<noteq> [] \<Longrightarrow> last (linkstack self) = Some h \<Longrightarrow>
   ImageLinkSearcher_event self e = Inr (self\<lparr>images := images self @ [Some h]\<rparr>)"
  by (cases e)
     (simp_all add: ImageLinkSearcher_handle_starttag_def ImageLinkSearcher_handle_endtag_def
        push_anchor_def record_image_def truthy_def is_image_filename_def extensions_def Let_def)

lemma close_anchor:
  "linkstack self \<noteq> [] \<Longrightarrow>
   ImageLinkSearcher_event self (EndTag ''a'') = Inr (self\<lparr>linkstack := butlast (linkstack self)\<rparr>)"
  by (simp add: ImageLinkSearcher_handle_endtag_def)

text \<open>One anchor with its image: the stack is empty again afterwards, and one href is added.\<close>

lemma feed_linked_image:
  assumes ok: "linked_image_ok seg" and empty: "linkstack self = []"
  shows "ImageLinkSearcher_feed self (linked_image_events seg) =
           Inr (self\<lparr>images := images self @ [href_of (anchor_attrs seg)]\<rparr>)"
proof -
  from ok obtain h where h: "href_of (anchor_attrs seg) = Some h"
    by (auto simp: linked_image_ok_def split: option.splits)
  from ok have lead: "no_anchor (leading seg)"
    and before: "no_anchor_no_img (inner_before seg)"
    and img: "starts_img (img_event seg)"
    and after: "no_anchor_no_img (inner_after seg)"
    by (simp_all add: linked_image_ok_def)
  let ?s1 = "self\<lparr>linkstack := [Some h]\<rparr>"
  let ?s2 = "?s1\<lparr>images := images self @ [Some h]\<rparr>"
  have 1: "ImageLinkSearcher_event self (StartTag ''a'' (anchor_attrs seg)) = Inr ?s1"
    using open_anchor [OF h, of self] empty by simp
  have 2: "ImageLinkSearcher_event ?s1 (img_event seg) = Inr ?s2"
    using image_in_anchor [OF img, of ?s1 h] by simp
  have 3: "ImageLinkSearcher_event ?s2 (EndTag ''a'') = Inr (?s2\<lparr>linkstack := []\<rparr>)"
    using close_anchor [of ?s2] by simp
  have 4: "?s2\<lparr>linkstack := []\<rparr> = self\<lparr>images := images self @ [Some h]\<rparr>"
    using empty by simp
  show ?thesis
    unfolding linked_image_events_def
    by (simp add: feed_append feed_outside_anchor [OF lead empty] 1 2 3 4 h
        feed_inside_anchor [OF before] feed_inside_anchor [OF after]
        del: ImageLinkSearcher_event.simps)
qed

lemma feed_linked_images:
  "list_all linked_image_ok segs \<Longrightarrow> linkstack self = [] \<Longrightarrow>
   ImageLinkSearcher_feed self (concat (map linked_image_events segs)) =
     Inr (self\<lparr>images := images self @ map (\<lambda>seg. href_of (anchor_attrs seg)) segs\<rparr>)"
proof (induction segs arbitrary: self)
  case Nil
  then show ?case by simp
next
  case (Cons seg segs)
  let ?s = "self\<lparr>images := images self @ [href_of (anchor_attrs seg)]\<rparr>"
  from Cons.prems have step: "ImageLinkSearcher_feed self (linked_image_events seg) = Inr ?s"
    by (simp add: feed_linked_image)
  have "linkstack ?s = []" using Cons.prems by simp
  with Cons.prems Cons.IH [of ?s] step show ?case
    by (simp add: feed_append)
qed

text \<open>
  C6. A document made of N anchor elements, each with an href that ends in an image
  extension and each wrapping one image (nothing else in the document opens or closes
  an anchor, and no anchor holds a second image), gives exactly the N hrefs, in document
  order. The events of the document are what the parser reports for the markup.
\<close>

theorem find_link_images_linked_images:
  "list_all linked_image_ok segs \<Longrightarrow> no_anchor trailing \<Longrightarrow>
   tokenize html = concat (map linked_image_events segs) @ trailing \<Longrightarrow>
   (\<exists>hrefs. find_link_images tokenize html = Inr hrefs \<and> length hrefs = length segs \<and>
      hrefs = map (\<lambda>seg. href_of (anchor_attrs seg)) segs)"
  by (simp add: find_link_images_def feed_append feed_linked_images feed_outside_anchor
      ImageLinkSearcher_init_def)

text \<open>
  The instance of the specification: \<^verbatim>\<open><a href="http://x/c.gif"><img src="thumb.png"></a>\<close>
  gives the one href.
\<close>

theorem find_link_images_gif_example:
  "linked_image_ok \<lparr>leading = [], anchor_attrs = [(''href'', Some ''http://x/c.gif'')],
      inner_before = [], img_event = StartTag ''img'' [(''src'', Some ''thumb.png'')],
      inner_after = []\<rparr> \<and>
   find_link_images
     (\<lambda>s. [StartTag ''a'' [(''href'', Some ''http://x/c.gif'')],
            StartTag ''img'' [(''src'', Some ''thumb.png'')], EndTag ''a''])
     ''<a href=\"http://x/c.gif\"><img src=\"thumb.png\"></a>'' = Inr [Some ''http://x/c.gif'']"
proof -
  let ?seg = "\<lparr>leading = [], anchor_attrs = [(''href'', Some ''http://x/c.gif'')],
      inner_before = [], img_event = StartTag ''img'' [(''src'', Some ''thumb.png'')],
      inner_after = []\<rparr>"
  have ok: "linked_image_ok ?seg"
    by (simp add: linked_image_ok_def no_anchor_def no_anchor_no_img_def href_of_def
        find_key_def has_image_extension_def extensions_def suffix_def)
  have ok': "list_all linked_image_ok [?seg]" using ok by simp
  have tr: "no_anchor []" by (simp add: no_anchor_def)
  from find_link_images_linked_images [OF ok' tr,
        of "\<lambda>s. [StartTag ''a'' [(''href'', Some ''http://x/c.gif'')],
            StartTag ''img'' [(''src'', Some ''thumb.png'')], EndTag ''a'']"
        "''<a href=\"http://x/c.gif\"><img src=\"thumb.png\"></a>''"]
  show ?thesis using ok
    by (simp add: linked_image_events_def href_of_def find_key_def)
qed

section \<open>The first-image scanner and the link resolver\<close>

text \<open>
  C5. The claim: an image tag without a \<^verbatim>\<open>src\<close> attribute is ignored by
  \<^verbatim>\<open>ImageSearcher\<close>, nothing is appended and nothing is raised. The code does not do that.
  \<^verbatim>\<open>find_key\<close> returns the empty list and \<^verbatim>\<open>src[0]\<close> raises \<^verbatim>\<open>IndexError\<close>, which ends
  the scan of \<^verbatim>\<open>images_in_html\<close>; the image that follows in the example is never read.
\<close>

theorem img_without_src_raises:
  "ImageSearcher_handle_starttag ImageSearcher_init ''img'' [(''alt'', Some ''logo'')]
     = Inl IndexError \<and>
   images_in_html (\<lambda>b. ''<img alt=\"logo\"><img src=\"http://x/b.png\">'')
     (\<lambda>s. [StartTag ''img'' [(''alt'', Some ''logo'')],
            StartTag ''img'' [(''src'', Some ''http://x/b.png'')]]) []
     = Inl IndexError"
  by (simp add: images_in_html_def ImageSearcher_init_def ImageSearcher_handle_starttag_def
      find_key_def)

lemma ImageSearcher_feed_no_img:
  "\<not> list_ex starts_img es \<Longrightarrow> ImageSearcher_feed self es = Inr self"
proof (induction es)
  case Nil
  show ?case by simp
next
  case (Cons e es)
  from Cons.prems have "ImageSearcher_event self e = Inr self"
    by (cases e) (simp_all add: ImageSearcher_handle_starttag_def)
  with Cons show ?case by simp
qed

text \<open>
  C8. For a document without an image tag \<^verbatim>\<open>images_in_html\<close> returns the empty list, and
  \<^verbatim>\<open>follow_image_embeds\<close> on an address whose response is not classified as an image
  and has such a body raises \<^verbatim>\<open>IndexError\<close> instead of returning an address.
\<close>

theorem no_img_no_image_found:
  "\<not> list_ex starts_img (tokenize (decode html_bytes)) \<Longrightarrow>
   images_in_html decode tokenize html_bytes = Inr [] \<and>
   (\<forall>urlopen url r ct.
      urlopen url = Inr r \<and> body r = html_bytes \<and> content_type r = Some ct \<and>
      \<not> startswith ct ''image'' \<longrightarrow>
      follow_image_embeds urlopen decode tokenize url = Inl IndexError)"
  by (simp add: images_in_html_def follow_image_embeds_def ImageSearcher_feed_no_img
      ImageSearcher_init_def)

theorem no_img_no_image_found_witness:
  "\<not> list_ex starts_img [StartTag ''html'' [], Data ''hello'', EndTag ''html''] \<and>
   images_in_html (\<lambda>b. ''<html>hello</html>'')
     (\<lambda>s. [StartTag ''html'' [], Data ''hello'', EndTag ''html'']) [60, 104] = Inr [] \<and>
   follow_image_embeds (\<lambda>u. Inr \<lparr>content_type = Some ''text/html'', body = [60, 104]\<rparr>)
     (\<lambda>b. ''<html>hello</html>'')
     (\<lambda>s. [StartTag ''html'' [], Data ''hello'', EndTag ''html'']) ''http://x/page''
     = Inl IndexError"
  using no_img_no_image_found
      [of "\<lambda>s. [StartTag ''html'' [], Data ''hello'', EndTag ''html'']"
          "\<lambda>b. ''<html>hello</html>''" "[60, 104]"]
  by (simp add: startswith_def)

lemma token_image_startswith:
  "top_level_token ct = ''image'' \<Longrightarrow> startswith ct ''image''"
  unfolding top_level_token_def startswith_def
  by (metis takeWhile_is_prefix)

text \<open>
  C7. When the response declares an image media type (the segment before \<^verbatim>\<open>/\<close> is
  \<^verbatim>\<open>image\<close>), \<^verbatim>\<open>follow_image_embeds\<close> returns the address it was given, whatever the body,
  its decoding and its markup are.
\<close>

theorem follow_image_embeds_image_unchanged:
  "urlopen url = Inr r \<Longrightarrow> content_type r = Some ct \<Longrightarrow> top_level_token ct = ''image'' \<Longrightarrow>
   follow_image_embeds urlopen decode tokenize url = Inr (Some url)"
  by (simp add: follow_image_embeds_def token_image_startswith)

text \<open>The instance of the specification: \<^verbatim>\<open>image/jpeg\<close> at \<^verbatim>\<open>http://x/a\<close>.\<close>

theorem follow_image_embeds_jpeg_example:
  "top_level_token ''image/jpeg'' = ''image'' \<and>
   follow_image_embeds (\<lambda>u. Inr \<lparr>content_type = Some ''image/jpeg'', body = [255, 216, 255]\<rparr>)
     (\<lambda>b. []) (\<lambda>s. []) ''http://x/a'' = Inr (Some ''http://x/a'')"
  using follow_image_embeds_image_unchanged
      [of "\<lambda>u. Inr \<lparr>content_type = Some ''image/jpeg'', body = [255, 216, 255]\<rparr>"
          "''http://x/a''" "\<lparr>content_type = Some ''image/jpeg'', body = [255, 216, 255]\<rparr>"
          "''image/jpeg''" "\<lambda>b. []" "\<lambda>s. []"]
  by (simp add: top_level_token_def)

text \<open>
  C3. The claim: a response counts as an image exactly when the segment of its media type
  before \<^verbatim>\<open>/\<close> equals \<^verbatim>\<open>image\<close>. The code tests \<^verbatim>\<open>content_type.startswith("image")\<close>, a
  prefix of the whole header. For the header \<^verbatim>\<open>imagex/png\<close> the segment is \<^verbatim>\<open>imagex\<close>,
  not \<^verbatim>\<open>image\<close>, and the address is returned unchanged all the same, although the body
  holds an image whose source the other branch would have returned.
\<close>

theorem imagex_classified_as_image:
  "top_level_token ''imagex/png'' \<noteq> ''image'' \<and>
   follow_image_embeds (\<lambda>u. Inr \<lparr>content_type = Some ''imagex/png'', body = []\<rparr>)
     (\<lambda>b. ''<html><img src=\"http://x/b.png\"></html>'')
     (\<lambda>s. [StartTag ''html'' [], StartTag ''img'' [(''src'', Some ''http://x/b.png'')],
            EndTag ''html''])
     ''http://x/a'' = Inr (Some ''http://x/a'') \<and>
   images_in_html (\<lambda>b. ''<html><img src=\"http://x/b.png\"></html>'')
     (\<lambda>s. [StartTag ''html'' [], StartTag ''img'' [(''src'', Some ''http://x/b.png'')],
            EndTag ''html'']) [] = Inr [Some ''http://x/b.png'']"
  by (simp add: top_level_token_def follow_image_embeds_def startswith_def images_in_html_def
      ImageSearcher_init_def ImageSearcher_handle_starttag_def find_key_def)

text \<open>
  C3 as the code has it: the response is taken for an image, and the address returned
  unchanged, exactly when the header begins with \<^verbatim>\<open>image\<close>; otherwise the body is scanned
  and its first image source returned. A media type whose segment before \<^verbatim>\<open>/\<close> is
  \<^verbatim>\<open>image\<close> begins with \<^verbatim>\<open>image\<close>.
\<close>

theorem follow_image_embeds_classification:
  "urlopen url = Inr r \<Longrightarrow> content_type r = Some ct \<Longrightarrow>
   (top_level_token ct = ''image'' \<longrightarrow> prefix ''image'' ct) \<and>
   follow_image_embeds urlopen decode tokenize url =
     (if prefix ''image'' ct then Inr (Some url)
      else (case images_in_html decode tokenize (body r) of
              Inl err \<Rightarrow> Inl err
            | Inr [] \<Rightarrow> Inl IndexError
            | Inr (s # rest) \<Rightarrow> Inr s))"
  using token_image_startswith [of ct]
  by (simp add: follow_image_embeds_def startswith_def split: sum.splits list.splits)

text \<open>
  The instance of the specification: \<^verbatim>\<open>text/html\<close> with the body
  \<^verbatim>\<open><html><img src="http://x/b.png"></html>\<close> resolves to \<^verbatim>\<open>http://x/b.png\<close>.
\<close>

theorem follow_image_embeds_html_example:
  "follow_image_embeds (\<lambda>u. Inr \<lparr>content_type = Some ''text/html'', body = []\<rparr>)
     (\<lambda>b. ''<html><img src=\"http://x/b.png\"></html>'')
     (\<lambda>s. [StartTag ''html'' [], StartTag ''img'' [(''src'', Some ''http://x/b.png'')],
            EndTag ''html''])
     ''http://x/a'' = Inr (Some ''http://x/b.png'')"
  using follow_image_embeds_classification
      [of "\<lambda>u. Inr \<lparr>content_type = Some ''text/html'', body = []\<rparr>" "''http://x/a''"
          "\<lparr>content_type = Some ''text/html'', body = []\<rparr>" "''text/html''"
          "\<lambda>b. ''<html><img src=\"http://x/b.png\"></html>''"
          "\<lambda>s. [StartTag ''html'' [], StartTag ''img'' [(''src'', Some ''http://x/b.png'')],
            EndTag ''html'']"]
  by (simp add: images_in_html_def ImageSearcher_init_def ImageSearcher_handle_starttag_def
      find_key_def)

section \<open>Pagination\<close>

lemma loop_chained:
  "chained call_json blog_id api_key p qs \<Longrightarrow>
   get_all_posts_loop call_json blog_id api_key p acc =
     Some (Inr (acc @ concat (map page_items qs)))"
proof (induction qs arbitrary: p acc)
  case Nil
  then show ?case by (subst get_all_posts_loop.simps) simp
next
  case (Cons q qs)
  from Cons.prems obtain token new_items where
    tok: "nextPageToken p = Some token" and
    fetch: "call_json (next_page_url blog_id api_key token) = Inr q" and
    its: "items q = Some new_items" and
    rest: "chained call_json blog_id api_key q qs"
    by (auto split: option.splits)
  have pi: "page_items q = new_items"
    by (simp add: page_items_def its)
  have "get_all_posts_loop call_json blog_id api_key p acc =
        get_all_posts_loop call_json blog_id api_key q (acc @ new_items)"
    by (subst get_all_posts_loop.simps) (simp add: tok fetch its)
  also have "\<dots> = Some (Inr ((acc @ new_items) @ concat (map page_items qs)))"
    by (rule Cons.IH [OF rest])
  finally show ?case using pi by simp
qed

lemma page_urls_differ:
  "first_page_url b k \<noteq> next_page_url b k t"
  "next_page_url b k t \<noteq> first_page_url b k"
  "next_page_url b k t = next_page_url b k t' \<longleftrightarrow> t = t'"
  by (simp_all add: first_page_url_def next_page_url_def)

text \<open>
  C9. When the server serves a sequence of pages, each with \<^verbatim>\<open>items\<close> and each but the
  last with a token, \<^verbatim>\<open>get_all_posts\<close> returns, and what it returns is the items of the
  pages one after the other in page order.
\<close>

theorem get_all_posts_concatenates_pages:
  "serves call_json blog_id api_key pages \<Longrightarrow>
   get_all_posts call_json blog_id api_key = Some (Inr (concat (map page_items pages)))"
  by (cases pages) (auto simp: serves_def get_all_posts_def loop_chained page_items_def)

text \<open>Three pages: the result is the items of the first, the second and the third.\<close>

theorem get_all_posts_three_pages:
  "serves (\<lambda>u. if u = first_page_url ''42'' ''KEY''
                  then Inr \<lparr>items = Some [''p1'', ''p2''], nextPageToken = Some ''t1''\<rparr>
                else if u = next_page_url ''42'' ''KEY'' ''t1''
                  then Inr \<lparr>items = Some [''p3''], nextPageToken = Some ''t2''\<rparr>
                else if u = next_page_url ''42'' ''KEY'' ''t2''
                  then Inr \<lparr>items = Some [''p4'', ''p5''], nextPageToken = None\<rparr>
                else Inl FetchError) ''42'' ''KEY''
     [\<lparr>items = Some [''p1'', ''p2''], nextPageToken = Some ''t1''\<rparr>,
      \<lparr>items = Some [''p3''], nextPageToken = Some ''t2''\<rparr>,
      \<lparr>items = Some [''p4'', ''p5''], nextPageToken = None\<rparr>] \<and>
   get_all_posts (\<lambda>u. if u = first_page_url ''42'' ''KEY''
                  then Inr \<lparr>items = Some [''p1'', ''p2''], nextPageToken = Some ''t1''\<rparr>
                else if u = next_page_url ''42'' ''KEY'' ''t1''
                  then Inr \<lparr>items = Some [''p3''], nextPageToken = Some ''t2''\<rparr>
                else if u = next_page_url ''42'' ''KEY'' ''t2''
                  then Inr \<lparr>items = Some [''p4'', ''p5''], nextPageToken = None\<rparr>
                else Inl FetchError) ''42'' ''KEY''
     = Some (Inr [''p1'', ''p2'', ''p3'', ''p4'', ''p5''])"
proof -
  let ?cj = "\<lambda>u. if u = first_page_url ''42'' ''KEY''
                  then Inr \<lparr>items = Some [''p1'', ''p2''], nextPageToken = Some ''t1''\<rparr>
                else if u = next_page_url ''42'' ''KEY'' ''t1''
                  then Inr \<lparr>items = Some [''p3''], nextPageToken = Some ''t2''\<rparr>
                else if u = next_page_url ''42'' ''KEY'' ''t2''
                  then Inr \<lparr>items = Some [''p4'', ''p5''], nextPageToken = None\<rparr>
                else Inl FetchError"
  let ?pages = "[\<lparr>items = Some [''p1'', ''p2''], nextPageToken = Some ''t1''\<rparr>,
      \<lparr>items = Some [''p3''], nextPageToken = Some ''t2''\<rparr>,
      \<lparr>items = Some [''p4'', ''p5''], nextPageToken = None\<rparr>]"
  have s: "serves ?cj ''42'' ''KEY'' ?pages"
    by (simp add: serves_def page_urls_differ)
  from get_all_posts_concatenates_pages [OF s] show ?thesis
    using s by (simp add: page_items_def)
qed

text \<open>
  C4. The claim: a page without \<^verbatim>\<open>items\<close> is an error that ends the whole pagination and
  reaches the caller, on the first page and on every later one. On the first page the
  code does that: the subscript stands before the \<^verbatim>\<open>try\<close>. On a later page it does not:
  \<^verbatim>\<open>items += data["items"]\<close> stands inside the \<^verbatim>\<open>try\<close>, whose \<^verbatim>\<open>except KeyError\<close> was
  written for the missing token, so the \<^verbatim>\<open>KeyError\<close> of \<^verbatim>\<open>items\<close> is swallowed, the loop
  ends and the items of the earlier pages are returned as if the listing were complete.
\<close>

theorem later_page_without_items_truncates:
  "get_all_posts (\<lambda>u. if u = first_page_url ''42'' ''KEY''
                  then Inr \<lparr>items = Some [''p1'', ''p2''], nextPageToken = Some ''t1''\<rparr>
                else if u = next_page_url ''42'' ''KEY'' ''t1''
                  then Inr \<lparr>items = None, nextPageToken = Some ''t2''\<rparr>
                else Inl FetchError) ''42'' ''KEY''
     = Some (Inr [''p1'', ''p2'']) \<and>
   get_all_posts (\<lambda>u. if u = first_page_url ''42'' ''KEY''
                  then Inr \<lparr>items = None, nextPageToken = Some ''t1''\<rparr>
                else Inl FetchError) ''42'' ''KEY''
     = Some (Inl (KeyError ''items'') :: error + string list)"
  apply (simp add: get_all_posts_def)
  apply (subst get_all_posts_loop.simps)
  apply (simp add: page_urls_differ)
  done

section \<open>Downloading\<close>

lemma rfind_absent: "c \<notin> set s \<Longrightarrow> rfind s c = - 1"
proof -
  assume "c \<notin> set s"
  then have "filter (\<lambda>i. s ! i = c) (rev [0..<length s]) = []"
    by (auto simp: filter_empty_conv)
  then show ?thesis by (simp add: rfind_def)
qed

text \<open>
  C10. For an address without \<^verbatim>\<open>/\<close> the search finds nothing (\<open>-1\<close>), the slice starts
  at index 0 and the file name is the whole address; when the fetch and the opening of
  the file succeed, the bytes fetched are written to the directory joined with that
  name, and their number is returned.
\<close>

theorem download_url_without_slash:
  "CHR ''/'' \<notin> set url \<Longrightarrow> urlopen url = Inr r \<Longrightarrow> writable (path_join directory url) \<Longrightarrow>
   rfind url (CHR ''/'') = - 1 \<and>
   slice_from url (rfind url (CHR ''/'') + 1) = url \<and>
   download_url_to_directory urlopen path_join writable fs url directory =
     Inr (int (length (body r)), fs(path_join directory url \<mapsto> body r))"
  by (simp add: download_url_to_directory_def rfind_absent slice_from_def Let_def)

theorem download_url_without_slash_witness:
  "CHR ''/'' \<notin> set ''image.png'' \<and>
   download_url_to_directory
     (\<lambda>u. Inr \<lparr>content_type = Some ''image/png'', body = [137, 80, 78]\<rparr>)
     (\<lambda>d n. d @ ''/'' @ n) (\<lambda>p. True) Map.empty ''image.png'' ''out'' =
     Inr (3, [''out/image.png'' \<mapsto> [137, 80, 78]])"
  using download_url_without_slash [of "''image.png''"
      "\<lambda>u. Inr \<lparr>content_type = Some ''image/png'', body = [137, 80, 78]\<rparr>"
      "\<lparr>content_type = Some ''image/png'', body = [137, 80, 78]\<rparr>"
      "\<lambda>p. True" "\<lambda>d n. d @ ''/'' @ n" "''out''" "Map.empty"]
  by simp

end
